theory Spec2Isabelle
  imports Complex_Main "HOL-Library.Sublist"
begin

section \<open>Observer pattern (observer\_pattern.py): the object store\<close>

text \<open>
  Every object of the program lives in a heap and is named by a reference. Python compares
  the instances of these classes by identity (none of them defines \<open>__eq__\<close>), so a
  reference is compared as a number. A subject keeps the references of its observers; an
  observer keeps the reference of its subject and pulls the subject's fields through it.
\<close>

type_synonym ref = nat

text \<open>
  The measurements are Python numbers that the program stores, passes on and prints; it
  never computes with them. An \<open>int\<close> is an integer, a finite \<open>float\<close> is the real number
  it denotes (\<open>0.0\<close> is \<open>PyFloat 0\<close>, the literal \<open>15\<close> is \<open>PyInt 15\<close>).
\<close>

datatype pyval = PyInt int | PyFloat real

datatype ButtonState = ON | OFF

text \<open>
  \<open>ValueError\<close> is what \<open>list.remove\<close> raises for a missing element; \<open>AttributeError\<close>
  is what Python raises when a method is called on an object whose class does not have it.
\<close>

datatype exn = ValueError | AttributeError

text \<open>One constructor for each class, with the attributes that its \<open>__init__\<close> assigns.\<close>

datatype obj =
    WeatherData (observers: "ref list") (temperature: pyval) (pressure: pyval)
      (humidity: pyval) (pollen: pyval)
  | Button (state: ButtonState) (observers: "ref list")
  | TemperatureDisplay (temperature: pyval) (subject: ref)
  | HumidityDisplay (humidity: pyval) (subject: ref)
  | PressureDisplay (pressure: pyval) (subject: ref)
  | PollenDisplay (pollen: pyval) (subject: ref)
  | OnEventListener (subject: ref)
  | OffEventListener (subject: ref)

text \<open>
  The state of a run: the heap, the lines printed so far, and a log of the \<open>update()\<close>
  invocations made so far (the receiver of each, oldest first). The log is ghost state: no
  function reads it.
\<close>

record world =
  heap :: "obj list"
  stdout :: "string list"
  calls :: "ref list"

definition deref :: "world \<Rightarrow> ref \<Rightarrow> obj option" where
  "deref w r = (if r < length (heap w) then Some (heap w ! r) else None)"

definition store :: "ref \<Rightarrow> obj \<Rightarrow> world \<Rightarrow> world" where
  "store r ob w = w\<lparr>heap := (heap w)[r := ob]\<rparr>"

definition alloc :: "obj \<Rightarrow> world \<Rightarrow> ref \<times> world" where
  "alloc ob w = (length (heap w), w\<lparr>heap := heap w @ [ob]\<rparr>)"

definition print :: "string \<Rightarrow> world \<Rightarrow> world" where
  "print s w = w\<lparr>stdout := stdout w @ [s]\<rparr>"

definition called :: "ref \<Rightarrow> world \<Rightarrow> world" where
  "called r w = w\<lparr>calls := calls w @ [r]\<rparr>"

section \<open>Constructors\<close>

definition WeatherData_init :: "world \<Rightarrow> ref \<times> world" where
  "WeatherData_init w = alloc (WeatherData [] (PyFloat 0) (PyFloat 0) (PyFloat 0) (PyFloat 0)) w"

definition Button_init :: "world \<Rightarrow> ref \<times> world" where
  "Button_init w = alloc (Button ON []) w"

definition TemperatureDisplay_init :: "ref \<Rightarrow> world \<Rightarrow> ref \<times> world" where
  "TemperatureDisplay_init sub w = alloc (TemperatureDisplay (PyFloat 0) sub) w"

definition HumidityDisplay_init :: "ref \<Rightarrow> world \<Rightarrow> ref \<times> world" where
  "HumidityDisplay_init sub w = alloc (HumidityDisplay (PyFloat 0) sub) w"

definition PressureDisplay_init :: "ref \<Rightarrow> world \<Rightarrow> ref \<times> world" where
  "PressureDisplay_init sub w = alloc (PressureDisplay (PyFloat 0) sub) w"

definition PollenDisplay_init :: "ref \<Rightarrow> world \<Rightarrow> ref \<times> world" where
  "PollenDisplay_init sub w = alloc (PollenDisplay (PyFloat 0) sub) w"

definition OnEventListener_init :: "ref \<Rightarrow> world \<Rightarrow> ref \<times> world" where
  "OnEventListener_init sub w = alloc (OnEventListener sub) w"

definition OffEventListener_init :: "ref \<Rightarrow> world \<Rightarrow> ref \<times> world" where
  "OffEventListener_init sub w = alloc (OffEventListener sub) w"

section \<open>Getters\<close>

text \<open>
  A getter called through a reference: only the class that defines it answers, any other
  object raises \<open>AttributeError\<close>. A reference outside the heap does not exist in Python;
  the model gives it the same answer.
\<close>

definition get_pollen :: "world \<Rightarrow> ref \<Rightarrow> exn + pyval" where
  "get_pollen w self =
     (case deref w self of
        Some (WeatherData obs t p h q) \<Rightarrow> Inr q
      | _ \<Rightarrow> Inl AttributeError)"

definition get_temperature :: "world \<Rightarrow> ref \<Rightarrow> exn + pyval" where
  "get_temperature w self =
     (case deref w self of
        Some (WeatherData obs t p h q) \<Rightarrow> Inr t
      | _ \<Rightarrow> Inl AttributeError)"

definition get_pressure :: "world \<Rightarrow> ref \<Rightarrow> exn + pyval" where
  "get_pressure w self =
     (case deref w self of
        Some (WeatherData obs t p h q) \<Rightarrow> Inr p
      | _ \<Rightarrow> Inl AttributeError)"

definition get_humidity :: "world \<Rightarrow> ref \<Rightarrow> exn + pyval" where
  "get_humidity w self =
     (case deref w self of
        Some (WeatherData obs t p h q) \<Rightarrow> Inr h
      | _ \<Rightarrow> Inl AttributeError)"

definition get_state :: "world \<Rightarrow> ref \<Rightarrow> exn + ButtonState" where
  "get_state w self =
     (case deref w self of
        Some (Button st obs) \<Rightarrow> Inr st
      | _ \<Rightarrow> Inl AttributeError)"

text \<open>The registry \<open>self.observers\<close> of a subject; \<open>None\<close> for an object that is no subject.\<close>

definition observers_of :: "world \<Rightarrow> ref \<Rightarrow> ref list option" where
  "observers_of w self =
     (case deref w self of
        Some (WeatherData obs t p h q) \<Rightarrow> Some obs
      | Some (Button st obs) \<Rightarrow> Some obs
      | _ \<Rightarrow> None)"

section \<open>The registry: registerObserver, removeObserver\<close>

text \<open>
  \<open>list.remove(x)\<close> deletes the first element equal to \<open>x\<close> and raises \<open>ValueError\<close>
  (here \<open>None\<close>) when there is none.
\<close>

fun list_remove :: "'a \<Rightarrow> 'a list \<Rightarrow> 'a list option" where
  "list_remove x [] = None"
| "list_remove x (y # ys) =
     (if y = x then Some ys
      else (case list_remove x ys of None \<Rightarrow> None | Some zs \<Rightarrow> Some (y # zs)))"

text \<open>\<open>WeatherData.registerObserver\<close> and \<open>Button.registerObserver\<close>, by the class of \<open>self\<close>.\<close>

definition registerObserver :: "ref \<Rightarrow> ref \<Rightarrow> world \<Rightarrow> exn option \<times> world" where
  "registerObserver self observer w =
     (case deref w self of
        Some (WeatherData obs t p h q) \<Rightarrow>
          (None, store self (WeatherData (obs @ [observer]) t p h q) w)
      | Some (Button st obs) \<Rightarrow>
          (None, store self (Button st (obs @ [observer])) w)
      | _ \<Rightarrow> (Some AttributeError, w))"

text \<open>\<open>WeatherData.removeObserver\<close> and \<open>Button.removeObserver\<close>.\<close>

definition removeObserver :: "ref \<Rightarrow> ref \<Rightarrow> world \<Rightarrow> exn option \<times> world" where
  "removeObserver self observer w =
     (case deref w self of
        Some (WeatherData obs t p h q) \<Rightarrow>
          (case list_remove observer obs of
             None \<Rightarrow> (Some ValueError, w)
           | Some obs' \<Rightarrow> (None, store self (WeatherData obs' t p h q) w))
      | Some (Button st obs) \<Rightarrow>
          (case list_remove observer obs of
             None \<Rightarrow> (Some ValueError, w)
           | Some obs' \<Rightarrow> (None, store self (Button st obs') w))
      | _ \<Rightarrow> (Some AttributeError, w))"

section \<open>Observers: display and update\<close>

text \<open>
  \<open>fmt\<close> is Python's formatting of a number inside an f-string (\<open>format(x, '')\<close>), a
  builtin that the program uses and does not define; it is a parameter.
\<close>

definition display :: "(pyval \<Rightarrow> string) \<Rightarrow> ref \<Rightarrow> world \<Rightarrow> exn option \<times> world" where
  "display fmt self w =
     (case deref w self of
        Some (TemperatureDisplay t sub) \<Rightarrow>
          (None, print (''The current temperature is: '' @ fmt t) w)
      | Some (HumidityDisplay h sub) \<Rightarrow>
          (None, print (''The current humidity is: '' @ fmt h) w)
      | Some (PressureDisplay p sub) \<Rightarrow>
          (None, print (''The current pressure is: '' @ fmt p) w)
      | Some (PollenDisplay q sub) \<Rightarrow>
          (None, print (''The current pollen is: '' @ fmt q) w)
      | _ \<Rightarrow> (Some AttributeError, w))"

text \<open>
  \<open>observer.update()\<close>, by the class of the receiver. An object that has no \<open>update\<close>
  raises \<open>AttributeError\<close> before anything is invoked; otherwise the invocation is
  logged first and the body of the method runs: the getter on \<open>self.subject\<close> (which may
  raise), the assignment to the local field, \<open>self.display()\<close>.
\<close>

definition update :: "(pyval \<Rightarrow> string) \<Rightarrow> ref \<Rightarrow> world \<Rightarrow> exn option \<times> world" where
  "update fmt self w =
     (case deref w self of
        Some (TemperatureDisplay t sub) \<Rightarrow>
          (case get_temperature w sub of
             Inl e \<Rightarrow> (Some e, called self w)
           | Inr v \<Rightarrow> display fmt self (store self (TemperatureDisplay v sub) (called self w)))
      | Some (HumidityDisplay h sub) \<Rightarrow>
          (case get_humidity w sub of
             Inl e \<Rightarrow> (Some e, called self w)
           | Inr v \<Rightarrow> display fmt self (store self (HumidityDisplay v sub) (called self w)))
      | Some (PressureDisplay p sub) \<Rightarrow>
          (case get_pressure w sub of
             Inl e \<Rightarrow> (Some e, called self w)
           | Inr v \<Rightarrow> display fmt self (store self (PressureDisplay v sub) (called self w)))
      | Some (PollenDisplay q sub) \<Rightarrow>
          (case get_pollen w sub of
             Inl e \<Rightarrow> (Some e, called self w)
           | Inr v \<Rightarrow> display fmt self (store self (PollenDisplay v sub) (called self w)))
      | Some (OnEventListener sub) \<Rightarrow>
          (case get_state w sub of
             Inl e \<Rightarrow> (Some e, called self w)
           | Inr st \<Rightarrow>
               (if st = ON
                then (None, print ''THE BUTTON IS ON SO I AM DOING SOMETHING'' (called self w))
                else (None, called self w)))
      | Some (OffEventListener sub) \<Rightarrow>
          (case get_state w sub of
             Inl e \<Rightarrow> (Some e, called self w)
           | Inr st \<Rightarrow>
               (if st = OFF
                then (None, print ''THE BUTTON IS OFF SO I AM DOING SOMETHING'' (called self w))
                else (None, called self w)))
      | _ \<Rightarrow> (Some AttributeError, w))"

section \<open>Subjects: notifyObservers and the state mutations\<close>

text \<open>What the heap operations do to a lookup.\<close>

lemma deref_store:
  "deref (store r ob w) r' = (if r' = r \<and> r < length (heap w) then Some ob else deref w r')"
  by (simp add: deref_def store_def)

lemma deref_called: "deref (called r w) r' = deref w r'"
  by (simp add: deref_def called_def)

lemma deref_print: "deref (print s w) r' = deref w r'"
  by (simp add: deref_def print_def)

lemma deref_lt: "deref w r = Some ob \<Longrightarrow> r < length (heap w)"
  by (simp add: deref_def split: if_splits)

lemmas deref_simps = deref_store deref_called deref_print

lemma display_deref: "display fmt r w = (res, w') \<Longrightarrow> deref w' r' = deref w r'"
  by (cases "deref w r"; simp add: display_def deref_print split: obj.splits)
    (auto simp: deref_print)

text \<open>No \<open>update\<close> touches the registry of any subject: the loop below relies on it.\<close>

lemma observers_of_update:
  assumes "update fmt r w = (res, w')"
  shows "observers_of w' self = observers_of w self"
proof (cases "deref w r")
  case None
  with assms show ?thesis by (simp add: update_def)
next
  case (Some ob)
  then have lt: "r < length (heap w)" by (rule deref_lt)
  note disp = display_deref[where r' = self]
  show ?thesis
  proof (cases ob)
    case (TemperatureDisplay t sub)
    with Some assms lt show ?thesis
      by (auto simp: update_def observers_of_def deref_simps split: sum.splits dest!: disp)
  next
    case (HumidityDisplay t sub)
    with Some assms lt show ?thesis
      by (auto simp: update_def observers_of_def deref_simps split: sum.splits dest!: disp)
  next
    case (PressureDisplay t sub)
    with Some assms lt show ?thesis
      by (auto simp: update_def observers_of_def deref_simps split: sum.splits dest!: disp)
  next
    case (PollenDisplay t sub)
    with Some assms lt show ?thesis
      by (auto simp: update_def observers_of_def deref_simps split: sum.splits dest!: disp)
  next
    case (OnEventListener sub)
    with Some assms lt show ?thesis
      by (auto simp: update_def observers_of_def deref_simps split: sum.splits if_splits)
  next
    case (OffEventListener sub)
    with Some assms lt show ?thesis
      by (auto simp: update_def observers_of_def deref_simps split: sum.splits if_splits)
  qed (use Some assms in \<open>simp_all add: update_def\<close>)
qed

text \<open>
  \<open>for observer in self.observers: observer.update()\<close>. Python's list iterator keeps an
  index into the live list: each round reads \<open>self.observers\<close> again, stops when the index
  has reached its length, and an exception raised by \<open>update()\<close> leaves the loop with the
  world as it is at that moment.
\<close>

function notify_loop ::
  "(pyval \<Rightarrow> string) \<Rightarrow> ref \<Rightarrow> nat \<Rightarrow> world \<Rightarrow> exn option \<times> world" where
  "notify_loop fmt self i w =
     (case observers_of w self of
        None \<Rightarrow> (Some AttributeError, w)
      | Some obs \<Rightarrow>
          (if i < length obs
           then (case update fmt (obs ! i) w of
                   (Some e, w') \<Rightarrow> (Some e, w')
                 | (None, w') \<Rightarrow> notify_loop fmt self (Suc i) w')
           else (None, w)))"
  by pat_completeness auto
termination
  apply (relation "measure (\<lambda>(fmt, self, i, w).
      length (case observers_of w self of None \<Rightarrow> [] | Some obs \<Rightarrow> obs) - i)")
   apply simp
  subgoal premises p for fmt self i w obs res w'
    using p observers_of_update[of fmt "obs ! i" w None w' self] by simp
  done

text \<open>\<open>WeatherData.notifyObservers\<close> and \<open>Button.notifyObservers\<close>.\<close>

definition notifyObservers :: "(pyval \<Rightarrow> string) \<Rightarrow> ref \<Rightarrow> world \<Rightarrow> exn option \<times> world" where
  "notifyObservers fmt self w = notify_loop fmt self 0 w"

text \<open>\<open>WeatherData.set_measurements\<close>: three fields from the arguments, the pollen from
  the literal \<open>15\<close>, then the notification.\<close>

definition set_measurements ::
  "(pyval \<Rightarrow> string) \<Rightarrow> ref \<Rightarrow> pyval \<Rightarrow> pyval \<Rightarrow> pyval \<Rightarrow> pyval \<Rightarrow> world \<Rightarrow> exn option \<times> world" where
  "set_measurements fmt self temperature' pressure' humidity' pollen' w =
     (case deref w self of
        Some (WeatherData obs t p h q) \<Rightarrow>
          notifyObservers fmt self
            (store self (WeatherData obs temperature' pressure' humidity' (PyInt 15)) w)
      | _ \<Rightarrow> (Some AttributeError, w))"

text \<open>\<open>Button.set_state\<close>.\<close>

definition set_state :: "(pyval \<Rightarrow> string) \<Rightarrow> ref \<Rightarrow> ButtonState \<Rightarrow> world \<Rightarrow> exn option \<times> world" where
  "set_state fmt self state' w =
     (case deref w self of
        Some (Button st obs) \<Rightarrow> notifyObservers fmt self (store self (Button state' obs) w)
      | _ \<Rightarrow> (Some AttributeError, w))"

section \<open>Vocabulary of the properties\<close>

text \<open>The class of the object behind a reference.\<close>

definition is_WeatherData :: "world \<Rightarrow> ref \<Rightarrow> bool" where
  "is_WeatherData w r = (case deref w r of Some (WeatherData obs t p h q) \<Rightarrow> True | _ \<Rightarrow> False)"

definition is_Button :: "world \<Rightarrow> ref \<Rightarrow> bool" where
  "is_Button w r = (case deref w r of Some (Button st obs) \<Rightarrow> True | _ \<Rightarrow> False)"

definition is_observer :: "world \<Rightarrow> ref \<Rightarrow> bool" where
  "is_observer w r =
     (case deref w r of
        None \<Rightarrow> False
      | Some (WeatherData obs t p h q) \<Rightarrow> False
      | Some (Button st obs) \<Rightarrow> False
      | _ \<Rightarrow> True)"

text \<open>
  An observer whose \<open>update()\<close> finds the getter it calls: its \<open>subject\<close> is an object of
  the class that the constructor's annotation names (\<open>WeatherData\<close> for the four displays,
  \<open>Button\<close> for the two listeners).
\<close>

definition typed_observer :: "world \<Rightarrow> ref \<Rightarrow> bool" where
  "typed_observer w r =
     (case deref w r of
        Some (TemperatureDisplay t sub) \<Rightarrow> is_WeatherData w sub
      | Some (HumidityDisplay h sub) \<Rightarrow> is_WeatherData w sub
      | Some (PressureDisplay p sub) \<Rightarrow> is_WeatherData w sub
      | Some (PollenDisplay q sub) \<Rightarrow> is_WeatherData w sub
      | Some (OnEventListener sub) \<Rightarrow> is_Button w sub
      | Some (OffEventListener sub) \<Rightarrow> is_Button w sub
      | _ \<Rightarrow> False)"

text \<open>
  The updates of a list of observers one after the other, stopping at the first exception:
  what a notification should amount to when the registry is the given list.
\<close>

fun run_updates :: "(pyval \<Rightarrow> string) \<Rightarrow> ref list \<Rightarrow> world \<Rightarrow> exn option \<times> world" where
  "run_updates fmt [] w = (None, w)"
| "run_updates fmt (r # rs) w =
     (case update fmt r w of
        (Some e, w') \<Rightarrow> (Some e, w')
      | (None, w') \<Rightarrow> run_updates fmt rs w')"

text \<open>
  An object without its mutable attributes: what is left is its class and, for an
  observer, its subject. Two worlds have the same classes when their heaps agree on that.
\<close>

fun skeleton :: "obj \<Rightarrow> obj" where
  "skeleton (WeatherData obs t p h q) = WeatherData [] (PyInt 0) (PyInt 0) (PyInt 0) (PyInt 0)"
| "skeleton (Button st obs) = Button ON []"
| "skeleton (TemperatureDisplay t sub) = TemperatureDisplay (PyInt 0) sub"
| "skeleton (HumidityDisplay h sub) = HumidityDisplay (PyInt 0) sub"
| "skeleton (PressureDisplay p sub) = PressureDisplay (PyInt 0) sub"
| "skeleton (PollenDisplay q sub) = PollenDisplay (PyInt 0) sub"
| "skeleton (OnEventListener sub) = OnEventListener sub"
| "skeleton (OffEventListener sub) = OffEventListener sub"

definition same_classes :: "world \<Rightarrow> world \<Rightarrow> bool" where
  "same_classes w w' = (map skeleton (heap w') = map skeleton (heap w))"

text \<open>Every getter of the subject answers in the second world as it does in the first.\<close>

definition same_fields :: "world \<Rightarrow> world \<Rightarrow> ref \<Rightarrow> bool" where
  "same_fields w w' self \<longleftrightarrow>
     get_temperature w' self = get_temperature w self \<and>
     get_pressure w' self = get_pressure w self \<and>
     get_humidity w' self = get_humidity w self \<and>
     get_pollen w' self = get_pollen w self \<and>
     get_state w' self = get_state w self"

text \<open>
  A sequence of \<open>registerObserver\<close> and \<open>removeObserver\<close> calls on one subject, run in
  order; an exception ends the run, as it would end the caller.
\<close>

datatype registry_call = Register ref | Remove ref

fun run_calls :: "ref \<Rightarrow> registry_call list \<Rightarrow> world \<Rightarrow> exn option \<times> world" where
  "run_calls self [] w = (None, w)"
| "run_calls self (Register r # cs) w =
     (case registerObserver self r w of
        (Some e, w') \<Rightarrow> (Some e, w')
      | (None, w') \<Rightarrow> run_calls self cs w')"
| "run_calls self (Remove r # cs) w =
     (case removeObserver self r w of
        (Some e, w') \<Rightarrow> (Some e, w')
      | (None, w') \<Rightarrow> run_calls self cs w')"

text \<open>
  What the registry should hold after the calls: a registration appends at the end, a
  removal deletes the first matching entry.
\<close>

fun registry_after :: "registry_call list \<Rightarrow> ref list \<Rightarrow> ref list" where
  "registry_after [] obs = obs"
| "registry_after (Register r # cs) obs = registry_after cs (obs @ [r])"
| "registry_after (Remove r # cs) obs = registry_after cs (remove1 r obs)"

text \<open>The observers that the calls register, in the order of the calls.\<close>

fun registered :: "registry_call list \<Rightarrow> ref list" where
  "registered [] = []"
| "registered (Register r # cs) = r # registered cs"
| "registered (Remove r # cs) = registered cs"

text \<open>
  The objects that the \<open>__main__\<close> block constructs, before any registration: the
  weather station at reference 0 with its four displays, the button at 5 with its two
  listeners.
\<close>

definition demo :: world where
  "demo =
     \<lparr>heap =
        [WeatherData [] (PyFloat 0) (PyFloat 0) (PyFloat 0) (PyFloat 0),
         PressureDisplay (PyFloat 0) 0,
         TemperatureDisplay (PyFloat 0) 0,
         HumidityDisplay (PyFloat 0) 0,
         PollenDisplay (PyFloat 0) 0,
         Button ON [],
         OnEventListener 5,
         OffEventListener 5],
      stdout = [],
      calls = []\<rparr>"

text \<open>
  The objects of \<open>demo\<close> with the humidity display constructed on the button instead
  (Python does not check the annotation of the constructor), after the three displays have
  been registered on the weather station: pressure, humidity, temperature.
\<close>

definition demo_mistyped :: world where
  "demo_mistyped =
     \<lparr>heap =
        [WeatherData [1, 3, 2] (PyFloat 0) (PyFloat 0) (PyFloat 0) (PyFloat 0),
         PressureDisplay (PyFloat 0) 0,
         TemperatureDisplay (PyFloat 0) 0,
         HumidityDisplay (PyFloat 0) 5,
         PollenDisplay (PyFloat 0) 0,
         Button ON [],
         OnEventListener 5,
         OffEventListener 5],
      stdout = [],
      calls = []\<rparr>"

section \<open>Auxiliary facts\<close>

declare notify_loop.simps [simp del]

lemma notify_loop_run_updates:
  "observers_of w self = Some obs \<Longrightarrow> notify_loop fmt self i w = run_updates fmt (drop i obs) w"
proof (induction fmt self i w rule: notify_loop.induct)
  case (1 fmt self i w)
  show ?case
  proof (cases "i < length obs")
    case False
    with 1(2) show ?thesis by (simp add: notify_loop.simps[of fmt self i w])
  next
    case True
    obtain res w' where u: "update fmt (obs ! i) w = (res, w')" by (cases "update fmt (obs ! i) w")
    have reg: "observers_of w' self = Some obs"
      using observers_of_update[OF u] 1(2) by simp
    have d: "drop i obs = obs ! i # drop (Suc i) obs"
      using True by (simp add: Cons_nth_drop_Suc)
    show ?thesis
    proof (cases res)
      case None
      with 1(1)[OF 1(2) True] u reg have "notify_loop fmt self (Suc i) w' = run_updates fmt (drop (Suc i) obs) w'"
        by simp
      with None u True 1(2) d show ?thesis by (simp add: notify_loop.simps[of fmt self i w])
    next
      case (Some e)
      with u True 1(2) d show ?thesis by (simp add: notify_loop.simps[of fmt self i w])
    qed
  qed
qed

lemma notifyObservers_run_updates:
  "observers_of w self = Some obs \<Longrightarrow> notifyObservers fmt self w = run_updates fmt obs w"
  by (simp add: notifyObservers_def notify_loop_run_updates)


lemma heap_simps [simp]:
  "heap (called r w) = heap w"
  "heap (print s w) = heap w"
  "heap (store r ob w) = (heap w)[r := ob]"
  by (simp_all add: called_def print_def store_def)

lemma stdout_simps [simp]:
  "stdout (called r w) = stdout w"
  "stdout (print s w) = stdout w @ [s]"
  "stdout (store r ob w) = stdout w"
  by (simp_all add: called_def print_def store_def)

lemma calls_simps [simp]:
  "calls (called r w) = calls w @ [r]"
  "calls (print s w) = calls w"
  "calls (store r ob w) = calls w"
  by (simp_all add: called_def print_def store_def)

lemma update_TemperatureDisplay:
  "deref w r = Some (TemperatureDisplay t sub) \<Longrightarrow>
   update fmt r w =
     (case get_temperature w sub of
        Inl e \<Rightarrow> (Some e, called r w)
      | Inr v \<Rightarrow> (None, print (''The current temperature is: '' @ fmt v)
                        (store r (TemperatureDisplay v sub) (called r w))))"
  by (frule deref_lt) (simp add: update_def display_def deref_simps split: sum.splits)

lemma update_HumidityDisplay:
  "deref w r = Some (HumidityDisplay t sub) \<Longrightarrow>
   update fmt r w =
     (case get_humidity w sub of
        Inl e \<Rightarrow> (Some e, called r w)
      | Inr v \<Rightarrow> (None, print (''The current humidity is: '' @ fmt v)
                        (store r (HumidityDisplay v sub) (called r w))))"
  by (frule deref_lt) (simp add: update_def display_def deref_simps split: sum.splits)

lemma update_PressureDisplay:
  "deref w r = Some (PressureDisplay t sub) \<Longrightarrow>
   update fmt r w =
     (case get_pressure w sub of
        Inl e \<Rightarrow> (Some e, called r w)
      | Inr v \<Rightarrow> (None, print (''The current pressure is: '' @ fmt v)
                        (store r (PressureDisplay v sub) (called r w))))"
  by (frule deref_lt) (simp add: update_def display_def deref_simps split: sum.splits)

lemma update_PollenDisplay:
  "deref w r = Some (PollenDisplay t sub) \<Longrightarrow>
   update fmt r w =
     (case get_pollen w sub of
        Inl e \<Rightarrow> (Some e, called r w)
      | Inr v \<Rightarrow> (None, print (''The current pollen is: '' @ fmt v)
                        (store r (PollenDisplay v sub) (called r w))))"
  by (frule deref_lt) (simp add: update_def display_def deref_simps split: sum.splits)

lemma update_OnEventListener:
  "deref w r = Some (OnEventListener sub) \<Longrightarrow>
   update fmt r w =
     (case get_state w sub of
        Inl e \<Rightarrow> (Some e, called r w)
      | Inr st \<Rightarrow> (None, if st = ON
                         then print ''THE BUTTON IS ON SO I AM DOING SOMETHING'' (called r w)
                         else called r w))"
  by (simp add: update_def split: sum.splits)

lemma update_OffEventListener:
  "deref w r = Some (OffEventListener sub) \<Longrightarrow>
   update fmt r w =
     (case get_state w sub of
        Inl e \<Rightarrow> (Some e, called r w)
      | Inr st \<Rightarrow> (None, if st = OFF
                         then print ''THE BUTTON IS OFF SO I AM DOING SOMETHING'' (called r w)
                         else called r w))"
  by (simp add: update_def split: sum.splits)

lemma update_not_observer:
  "\<not> is_observer w r \<Longrightarrow> update fmt r w = (Some AttributeError, w)"
  by (simp add: update_def is_observer_def split: option.splits obj.splits)

lemmas update_class =
  update_TemperatureDisplay update_HumidityDisplay update_PressureDisplay
  update_PollenDisplay update_OnEventListener update_OffEventListener

lemma getter_Inr:
  "get_temperature w sub = Inr v \<Longrightarrow> is_WeatherData w sub"
  "get_humidity w sub = Inr v \<Longrightarrow> is_WeatherData w sub"
  "get_pressure w sub = Inr v \<Longrightarrow> is_WeatherData w sub"
  "get_pollen w sub = Inr v \<Longrightarrow> is_WeatherData w sub"
  "get_state w sub = Inr st \<Longrightarrow> is_Button w sub"
  by (simp_all add: get_temperature_def get_humidity_def get_pressure_def get_pollen_def
      get_state_def is_WeatherData_def is_Button_def split: option.splits obj.splits)

lemma getter_Inl:
  "get_temperature w sub = Inl e \<Longrightarrow> \<not> is_WeatherData w sub"
  "get_humidity w sub = Inl e \<Longrightarrow> \<not> is_WeatherData w sub"
  "get_pressure w sub = Inl e \<Longrightarrow> \<not> is_WeatherData w sub"
  "get_pollen w sub = Inl e \<Longrightarrow> \<not> is_WeatherData w sub"
  "get_state w sub = Inl e \<Longrightarrow> \<not> is_Button w sub"
  by (simp_all add: get_temperature_def get_humidity_def get_pressure_def get_pollen_def
      get_state_def is_WeatherData_def is_Button_def split: option.splits obj.splits)

lemma update_None_iff:
  assumes "update fmt r w = (res, w')"
  shows "res = None \<longleftrightarrow> typed_observer w r"
proof (cases "is_observer w r")
  case False
  then have "\<not> typed_observer w r"
    by (auto simp: is_observer_def typed_observer_def split: option.splits obj.splits)
  with False assms show ?thesis by (auto simp: update_not_observer)
next
  case True
  then obtain ob where ob: "deref w r = Some ob" by (auto simp: is_observer_def split: option.splits)
  with True assms show ?thesis
    by (cases ob)
      (auto simp: update_class typed_observer_def is_observer_def
         split: sum.splits dest: getter_Inr getter_Inl)
qed


lemma update_calls:
  assumes "update fmt r w = (res, w')"
  shows "calls w' = calls w @ (if is_observer w r then [r] else [])"
proof (cases "is_observer w r")
  case False
  with assms show ?thesis by (auto simp: update_not_observer)
next
  case True
  then obtain ob where ob: "deref w r = Some ob" by (auto simp: is_observer_def split: option.splits)
  with True assms show ?thesis
    by (cases ob) (auto simp: update_class is_observer_def split: sum.splits)
qed

lemma update_stdout:
  assumes "update fmt r w = (res, w')"
  shows "\<exists>out. stdout w' = stdout w @ out"
proof (cases "is_observer w r")
  case False
  with assms show ?thesis by (auto simp: update_not_observer)
next
  case True
  then obtain ob where ob: "deref w r = Some ob" by (auto simp: is_observer_def split: option.splits)
  with True assms show ?thesis
    by (cases ob) (auto simp: update_class is_observer_def split: sum.splits)
qed

lemma update_heap:
  assumes "update fmt r w = (res, w')"
  shows "heap w' = heap w \<or>
         (\<exists>ob'. is_observer w r \<and> r < length (heap w) \<and> heap w' = (heap w)[r := ob'] \<and>
                skeleton ob' = skeleton (heap w ! r))"
proof (cases "is_observer w r")
  case False
  with assms show ?thesis by (auto simp: update_not_observer)
next
  case True
  then obtain ob where ob: "deref w r = Some ob" by (auto simp: is_observer_def split: option.splits)
  then have lt: "r < length (heap w)" and nth: "heap w ! r = ob"
    by (auto simp: deref_def split: if_splits)
  from ob True assms lt nth show ?thesis
    by (cases ob) (auto simp: update_class is_observer_def split: sum.splits)
qed

lemma update_same_classes:
  assumes "update fmt r w = (res, w')"
  shows "same_classes w w'"
  using update_heap[OF assms]
  by (auto simp: same_classes_def map_update list_update_same_conv)

lemma update_other:
  assumes "update fmt r w = (res, w')" and "r' \<noteq> r \<or> \<not> is_observer w r"
  shows "deref w' r' = deref w r'"
  using update_heap[OF assms(1)] assms(2)
  by (auto simp: deref_def)

lemma skeleton_is_WeatherData:
  "skeleton a = skeleton b \<Longrightarrow>
   (case a of WeatherData obs t p h q \<Rightarrow> True | _ \<Rightarrow> False) =
   (case b of WeatherData obs t p h q \<Rightarrow> True | _ \<Rightarrow> False)"
  by (cases a; cases b; simp)

lemma skeleton_is_Button:
  "skeleton a = skeleton b \<Longrightarrow>
   (case a of Button st obs \<Rightarrow> True | _ \<Rightarrow> False) =
   (case b of Button st obs \<Rightarrow> True | _ \<Rightarrow> False)"
  by (cases a; cases b; simp)

lemma same_classes_nth:
  assumes "same_classes w w'"
  shows "length (heap w') = length (heap w)"
    and "r < length (heap w) \<Longrightarrow> skeleton (heap w' ! r) = skeleton (heap w ! r)"
proof -
  from assms have eq: "map skeleton (heap w') = map skeleton (heap w)"
    by (simp add: same_classes_def)
  then show len: "length (heap w') = length (heap w)" by (rule map_eq_imp_length_eq)
  assume "r < length (heap w)"
  with len eq show "skeleton (heap w' ! r) = skeleton (heap w ! r)"
    by (metis nth_map)
qed

lemma same_classes_is_WeatherData:
  "same_classes w w' \<Longrightarrow> is_WeatherData w' r = is_WeatherData w r"
  using same_classes_nth(1)[of w w'] same_classes_nth(2)[of w w' r] skeleton_is_WeatherData[of "heap w' ! r" "heap w ! r"]
  by (simp add: is_WeatherData_def deref_def)

lemma same_classes_is_Button:
  "same_classes w w' \<Longrightarrow> is_Button w' r = is_Button w r"
  using same_classes_nth(1)[of w w'] same_classes_nth(2)[of w w' r] skeleton_is_Button[of "heap w' ! r" "heap w ! r"]
  by (simp add: is_Button_def deref_def)

lemma same_classes_is_observer:
  assumes "same_classes w w'"
  shows "is_observer w' r = is_observer w r"
proof (cases "r < length (heap w)")
  case False
  with same_classes_nth(1)[OF assms] show ?thesis by (simp add: is_observer_def deref_def)
next
  case True
  from same_classes_nth[OF assms] True
  have "length (heap w') = length (heap w)" "skeleton (heap w' ! r) = skeleton (heap w ! r)"
    by simp_all
  with True show ?thesis
    by (cases "heap w ! r"; cases "heap w' ! r"; simp add: is_observer_def deref_def)
qed

lemma same_classes_typed_observer:
  assumes "same_classes w w'"
  shows "typed_observer w' r = typed_observer w r"
proof (cases "r < length (heap w)")
  case False
  with same_classes_nth(1)[OF assms] show ?thesis by (simp add: typed_observer_def deref_def)
next
  case True
  from same_classes_nth[OF assms] True
  have "length (heap w') = length (heap w)" "skeleton (heap w' ! r) = skeleton (heap w ! r)"
    by simp_all
  with True show ?thesis
    by (cases "heap w ! r"; cases "heap w' ! r";
        simp add: typed_observer_def deref_def
          same_classes_is_WeatherData[OF assms] same_classes_is_Button[OF assms])
qed

lemma same_classes_refl: "same_classes w w"
  by (simp add: same_classes_def)

lemma same_classes_trans: "same_classes w w' \<Longrightarrow> same_classes w' w'' \<Longrightarrow> same_classes w w''"
  by (simp add: same_classes_def)

lemma typed_observer_is_observer: "typed_observer w r \<Longrightarrow> is_observer w r"
  by (auto simp: typed_observer_def is_observer_def split: option.splits obj.splits)

lemma run_updates_append:
  "run_updates fmt (xs @ ys) w =
     (case run_updates fmt xs w of
        (Some e, w') \<Rightarrow> (Some e, w')
      | (None, w') \<Rightarrow> run_updates fmt ys w')"
  by (induction xs arbitrary: w) (auto split: prod.splits option.splits)

lemma run_updates_frame:
  "run_updates fmt rs w = (res, w') \<Longrightarrow>
     same_classes w w' \<and>
     (\<forall>s. \<not> is_observer w s \<longrightarrow> deref w' s = deref w s) \<and>
     (\<exists>out. stdout w' = stdout w @ out) \<and>
     (\<exists>cs. calls w' = calls w @ cs)"
proof (induction rs arbitrary: w)
  case Nil
  then show ?case by (simp add: same_classes_refl)
next
  case (Cons r rs)
  obtain res1 w1 where u: "update fmt r w = (res1, w1)" by (cases "update fmt r w")
  have sc: "same_classes w w1" by (rule update_same_classes[OF u])
  have fr: "deref w1 s = deref w s" if "\<not> is_observer w s" for s
    using update_other[OF u, of s] that by auto
  obtain out1 where out1: "stdout w1 = stdout w @ out1" using update_stdout[OF u] by blast
  have cs1: "calls w1 = calls w @ (if is_observer w r then [r] else [])" by (rule update_calls[OF u])
  show ?case
  proof (cases res1)
    case (Some e)
    with Cons.prems u have "w' = w1" by simp
    with sc fr out1 cs1 show ?thesis by simp
  next
    case None
    with Cons.prems u have "run_updates fmt rs w1 = (res, w')" by simp
    from Cons.IH[OF this] have
      a: "same_classes w1 w'" and
      b: "\<And>s. \<not> is_observer w1 s \<Longrightarrow> deref w' s = deref w1 s" and
      c: "\<exists>out. stdout w' = stdout w1 @ out" and
      d: "\<exists>cs. calls w' = calls w1 @ cs" by blast+
    have "\<And>s. \<not> is_observer w s \<Longrightarrow> deref w' s = deref w s"
      using b fr same_classes_is_observer[OF sc] by simp
    moreover have "same_classes w w'" using sc a by (rule same_classes_trans)
    moreover from c out1 have "\<exists>out. stdout w' = stdout w @ out" by auto
    moreover from d cs1 have "\<exists>cs. calls w' = calls w @ cs" by auto
    ultimately show ?thesis by blast
  qed
qed

lemma run_updates_typed:
  "list_all (typed_observer w) rs \<Longrightarrow>
     \<exists>w'. run_updates fmt rs w = (None, w') \<and> calls w' = calls w @ rs"
proof (induction rs arbitrary: w)
  case Nil
  then show ?case by simp
next
  case (Cons r rs)
  obtain res1 w1 where u: "update fmt r w = (res1, w1)" by (cases "update fmt r w")
  from Cons.prems have t: "typed_observer w r" by simp
  with update_None_iff[OF u] have res1: "res1 = None" by simp
  have sc: "same_classes w w1" by (rule update_same_classes[OF u])
  have cs1: "calls w1 = calls w @ [r]"
    using update_calls[OF u] typed_observer_is_observer[OF t] by simp
  have "typed_observer w1 = typed_observer w"
    by (rule ext) (rule same_classes_typed_observer[OF sc])
  with Cons.prems have "list_all (typed_observer w1) rs" by simp
  from Cons.IH[OF this] obtain w' where "run_updates fmt rs w1 = (None, w')" "calls w' = calls w1 @ rs"
    by blast
  with u res1 cs1 show ?case by simp
qed

lemma list_remove_None: "list_remove x xs = None \<longleftrightarrow> x \<notin> set xs"
  by (induction xs) (auto split: option.splits)

lemma list_remove_first: "x \<notin> set xs \<Longrightarrow> list_remove x (xs @ x # ys) = Some (xs @ ys)"
  by (induction xs) auto

lemma list_remove_remove1: "list_remove x xs = Some ys \<Longrightarrow> ys = remove1 x xs"
  by (induction xs arbitrary: ys) (auto split: option.splits if_splits)

lemma same_classes_store:
  "deref w r = Some ob \<Longrightarrow> skeleton ob' = skeleton ob \<Longrightarrow> same_classes w (store r ob' w)"
  by (auto simp: same_classes_def deref_def map_update list_update_same_conv split: if_splits)

lemma observers_of_cases:
  assumes "observers_of w self = Some obs"
  obtains (WeatherData) t p h q where "deref w self = Some (WeatherData obs t p h q)"
        | (Button) st where "deref w self = Some (Button st obs)"
  using assms by (auto simp: observers_of_def split: option.splits obj.splits)

lemmas getter_defs =
  get_temperature_def get_pressure_def get_humidity_def get_pollen_def get_state_def

lemma registerObserver_subject:
  assumes "observers_of w self = Some obs"
  shows "\<exists>w'. registerObserver self r w = (None, w') \<and>
              observers_of w' self = Some (obs @ [r]) \<and>
              same_classes w w' \<and> same_fields w w' self \<and>
              calls w' = calls w \<and> stdout w' = stdout w \<and>
              (\<forall>s. s \<noteq> self \<longrightarrow> deref w' s = deref w s)"
  using assms
proof (cases rule: observers_of_cases)
  case (WeatherData t p h q)
  then show ?thesis
    by (frule_tac deref_lt)
      (simp add: registerObserver_def observers_of_def deref_simps same_classes_store
        same_fields_def getter_defs)
next
  case (Button st)
  then show ?thesis
    by (frule_tac deref_lt)
      (simp add: registerObserver_def observers_of_def deref_simps same_classes_store
        same_fields_def getter_defs)
qed

lemma removeObserver_found:
  assumes "observers_of w self = Some obs" and "list_remove r obs = Some obs'"
  shows "\<exists>w'. removeObserver self r w = (None, w') \<and>
              observers_of w' self = Some obs' \<and>
              same_classes w w' \<and> same_fields w w' self \<and>
              calls w' = calls w \<and> stdout w' = stdout w \<and>
              (\<forall>s. s \<noteq> self \<longrightarrow> deref w' s = deref w s)"
  using assms(1)
proof (cases rule: observers_of_cases)
  case (WeatherData t p h q)
  with assms(2) show ?thesis
    by (frule_tac deref_lt)
      (simp add: removeObserver_def observers_of_def deref_simps same_classes_store
        same_fields_def getter_defs)
next
  case (Button st)
  with assms(2) show ?thesis
    by (frule_tac deref_lt)
      (simp add: removeObserver_def observers_of_def deref_simps same_classes_store
        same_fields_def getter_defs)
qed

lemma removeObserver_missing:
  assumes "observers_of w self = Some obs" and "list_remove r obs = None"
  shows "removeObserver self r w = (Some ValueError, w)"
  using assms(1)
  by (cases rule: observers_of_cases) (simp_all add: removeObserver_def assms(2))

lemma subseq_remove1: "subseq (remove1 x xs) xs"
  by (induction xs) auto

lemma run_calls_registry:
  assumes "observers_of w self = Some obs0" and "run_calls self cs w = (res, w1)"
  shows "\<exists>obs1. observers_of w1 self = Some obs1 \<and> same_classes w w1 \<and>
               calls w1 = calls w \<and> stdout w1 = stdout w \<and>
               subseq obs1 (obs0 @ registered cs) \<and>
               (res = None \<longrightarrow> obs1 = registry_after cs obs0)"
  using assms
proof (induction cs arbitrary: w obs0)
  case Nil
  then show ?case by (simp add: same_classes_refl)
next
  case (Cons c cs)
  show ?case
  proof (cases c)
    case (Register r)
    from registerObserver_subject[OF Cons.prems(1), of r] obtain w' where
      reg: "registerObserver self r w = (None, w')" and
      obs: "observers_of w' self = Some (obs0 @ [r])" and
      sc: "same_classes w w'" and cl: "calls w' = calls w" and so: "stdout w' = stdout w"
      by blast
    from Cons.prems(2) Register reg have "run_calls self cs w' = (res, w1)" by simp
    from Cons.IH[OF obs this] obtain obs1 where
      "observers_of w1 self = Some obs1" "same_classes w' w1" "calls w1 = calls w'"
      "stdout w1 = stdout w'" "subseq obs1 ((obs0 @ [r]) @ registered cs)"
      "res = None \<longrightarrow> obs1 = registry_after cs (obs0 @ [r])"
      by blast
    with sc cl so Register show ?thesis
      by (auto intro: same_classes_trans)
  next
    case (Remove r)
    show ?thesis
    proof (cases "list_remove r obs0")
      case None
      from removeObserver_missing[OF Cons.prems(1) None] Cons.prems(2) Remove
      have "res = Some ValueError" "w1 = w" by simp_all
      with Cons.prems(1) show ?thesis
        by (auto simp: same_classes_refl intro: subseq_rev_drop_many)
    next
      case (Some obs')
      then have obs': "obs' = remove1 r obs0" by (rule list_remove_remove1)
      from removeObserver_found[OF Cons.prems(1) Some] obtain w' where
        rem: "removeObserver self r w = (None, w')" and
        obs: "observers_of w' self = Some obs'" and
        sc: "same_classes w w'" and cl: "calls w' = calls w" and so: "stdout w' = stdout w"
        by blast
      from Cons.prems(2) Remove rem have "run_calls self cs w' = (res, w1)" by simp
      from Cons.IH[OF obs this] obtain obs1 where
        o1: "observers_of w1 self = Some obs1" "same_classes w' w1" "calls w1 = calls w'"
        "stdout w1 = stdout w'" "res = None \<longrightarrow> obs1 = registry_after cs obs'"
        and ss: "subseq obs1 (obs' @ registered cs)"
        by blast
      have "subseq (obs' @ registered cs) (obs0 @ registered cs)"
        by (simp add: obs' subseq_remove1)
      with ss have "subseq obs1 (obs0 @ registered cs)" by (rule subseq_order.trans)
      with o1 sc cl so Remove obs' show ?thesis
        by (auto intro: same_classes_trans)
    qed
  qed
qed

text \<open>The demonstration world is what the constructors build from nothing.\<close>

lemma demo_constructed:
  "snd (OffEventListener_init 5 (snd (OnEventListener_init 5 (snd (Button_init
     (snd (PollenDisplay_init 0 (snd (HumidityDisplay_init 0 (snd (TemperatureDisplay_init 0
       (snd (PressureDisplay_init 0 (snd (WeatherData_init
          \<lparr>heap = [], stdout = [], calls = []\<rparr>))))))))))))))) = demo"
  by (simp add: demo_def WeatherData_init_def PressureDisplay_init_def
      TemperatureDisplay_init_def HumidityDisplay_init_def PollenDisplay_init_def
      Button_init_def OnEventListener_init_def OffEventListener_init_def alloc_def)

lemma subseq_set: "subseq xs ys \<Longrightarrow> set xs \<subseteq> set ys"
  by (auto dest: list_emb_set)

lemma subject_not_observer: "observers_of w self = Some obs \<Longrightarrow> \<not> is_observer w self"
  by (auto simp: observers_of_def is_observer_def split: option.splits obj.splits)

lemma run_updates_observers_of:
  assumes "run_updates fmt rs w = (res, w')"
  shows "observers_of w' self = observers_of w self"
proof (cases "is_observer w self")
  case False
  with run_updates_frame[OF assms] have "deref w' self = deref w self" by blast
  then show ?thesis by (simp add: observers_of_def)
next
  case True
  from run_updates_frame[OF assms] have "same_classes w w'" by blast
  with True have "is_observer w' self"
    by (simp add: same_classes_is_observer)
  with True show ?thesis
    by (auto simp: observers_of_def is_observer_def split: option.splits obj.splits)
qed

lemma run_updates_subject:
  assumes "run_updates fmt rs w = (res, w')" and "observers_of w self = Some obs"
  shows "deref w' self = deref w self"
  using run_updates_frame[OF assms(1)] subject_not_observer[OF assms(2)] by blast

lemma set_measurements_WeatherData:
  assumes "deref w self = Some (WeatherData obs t0 p0 h0 q0)"
  shows "set_measurements fmt self t p h q w =
           run_updates fmt obs (store self (WeatherData obs t p h (PyInt 15)) w)"
    and "deref (store self (WeatherData obs t p h (PyInt 15)) w) self =
           Some (WeatherData obs t p h (PyInt 15))"
proof -
  from assms have lt: "self < length (heap w)" by (rule deref_lt)
  then show d: "deref (store self (WeatherData obs t p h (PyInt 15)) w) self =
           Some (WeatherData obs t p h (PyInt 15))"
    by (simp add: deref_store)
  then have "observers_of (store self (WeatherData obs t p h (PyInt 15)) w) self = Some obs"
    by (simp add: observers_of_def)
  from notifyObservers_run_updates[OF this] assms
  show "set_measurements fmt self t p h q w =
           run_updates fmt obs (store self (WeatherData obs t p h (PyInt 15)) w)"
    by (simp add: set_measurements_def)
qed

lemma set_state_Button:
  assumes "deref w self = Some (Button st0 obs)"
  shows "set_state fmt self st w = run_updates fmt obs (store self (Button st obs) w)"
    and "deref (store self (Button st obs) w) self = Some (Button st obs)"
proof -
  from assms have lt: "self < length (heap w)" by (rule deref_lt)
  then show d: "deref (store self (Button st obs) w) self = Some (Button st obs)"
    by (simp add: deref_store)
  then have "observers_of (store self (Button st obs) w) self = Some obs"
    by (simp add: observers_of_def)
  from notifyObservers_run_updates[OF this] assms
  show "set_state fmt self st w = run_updates fmt obs (store self (Button st obs) w)"
    by (simp add: set_state_def)
qed

lemma set_measurements_subject:
  assumes "deref w self = Some (WeatherData obs t0 p0 h0 q0)"
    and "set_measurements fmt self t p h q w = (res, w')"
  shows "deref w' self = Some (WeatherData obs t p h (PyInt 15))"
proof -
  let ?w1 = "store self (WeatherData obs t p h (PyInt 15)) w"
  note sm = set_measurements_WeatherData[OF assms(1)]
  from assms(2) have ru: "run_updates fmt obs ?w1 = (res, w')" by (simp add: sm(1))
  have "observers_of ?w1 self = Some obs" by (simp add: sm(2) observers_of_def)
  from run_updates_subject[OF ru this] show ?thesis by (simp add: sm(2))
qed

lemma registerObserver_frame:
  assumes "observers_of w self = Some obs" and "registerObserver self r w = (res, w')"
  shows "same_fields w w' self \<and> calls w' = calls w \<and> stdout w' = stdout w \<and>
         (\<forall>s. s \<noteq> self \<longrightarrow> deref w' s = deref w s)"
  using registerObserver_subject[OF assms(1), of r] assms(2) by auto

lemma same_fields_refl: "same_fields w w self"
  by (simp add: same_fields_def)

lemma removeObserver_frame:
  assumes "observers_of w self = Some obs" and "removeObserver self r w = (res, w')"
  shows "same_fields w w' self \<and> calls w' = calls w \<and> stdout w' = stdout w \<and>
         (\<forall>s. s \<noteq> self \<longrightarrow> deref w' s = deref w s)"
proof (cases "list_remove r obs")
  case None
  from removeObserver_missing[OF assms(1) None] assms(2) show ?thesis
    by (simp add: same_fields_refl)
next
  case (Some obs')
  from removeObserver_found[OF assms(1) Some] assms(2) show ?thesis by auto
qed

lemma set_measurements_registry:
  assumes "observers_of w self = Some obs" and "set_measurements fmt self t p h q w = (res, w')"
  shows "observers_of w' self = Some obs"
  using assms(1)
proof (cases rule: observers_of_cases)
  case (WeatherData t0 p0 h0 q0)
  from set_measurements_subject[OF this assms(2)] show ?thesis
    by (simp add: observers_of_def)
next
  case (Button st)
  with assms show ?thesis by (simp add: set_measurements_def)
qed

lemma set_state_registry:
  assumes "observers_of w self = Some obs" and "set_state fmt self st w = (res, w')"
  shows "observers_of w' self = Some obs"
  using assms(1)
proof (cases rule: observers_of_cases)
  case (Button st0)
  let ?w1 = "store self (Button st obs) w"
  note ss = set_state_Button[OF Button]
  from assms(2) have ru: "run_updates fmt obs ?w1 = (res, w')" by (simp add: ss(1))
  have o: "observers_of ?w1 self = Some obs" by (simp add: ss(2) observers_of_def)
  from run_updates_observers_of[OF ru, of self] o show ?thesis by simp
next
  case (WeatherData t0 p0 h0 q0)
  with assms show ?thesis by (simp add: set_state_def)
qed

lemma run_updates_None_calls:
  "run_updates fmt rs w = (None, w') \<Longrightarrow> calls w' = calls w @ rs"
proof (induction rs arbitrary: w)
  case Nil
  then show ?case by simp
next
  case (Cons r rs)
  obtain res1 w1 where u: "update fmt r w = (res1, w1)" by (cases "update fmt r w")
  with Cons.prems have res1: "res1 = None" and ru: "run_updates fmt rs w1 = (None, w')"
    by (auto split: option.splits)
  from update_None_iff[OF u] res1 have "typed_observer w r" by simp
  then have "is_observer w r" by (rule typed_observer_is_observer)
  with update_calls[OF u] have "calls w1 = calls w @ [r]" by simp
  with Cons.IH[OF ru] show ?case by simp
qed

lemma getter_exn:
  "get_temperature w s = Inl e \<Longrightarrow> e = AttributeError"
  "get_humidity w s = Inl e \<Longrightarrow> e = AttributeError"
  "get_pressure w s = Inl e \<Longrightarrow> e = AttributeError"
  "get_pollen w s = Inl e \<Longrightarrow> e = AttributeError"
  "get_state w s = Inl e \<Longrightarrow> e = AttributeError"
  by (auto simp: getter_defs split: option.splits obj.splits)

lemma update_raises:
  assumes "is_observer w r" and "update fmt r w = (Some e, w')"
  shows "w' = called r w \<and> e = AttributeError"
proof -
  from assms(1) obtain ob where ob: "deref w r = Some ob"
    by (auto simp: is_observer_def split: option.splits)
  from ob assms show ?thesis
    by (cases ob) (auto simp: update_class is_observer_def split: sum.splits dest: getter_exn)
qed

lemma run_updates_calls_subset:
  "run_updates fmt rs w = (res, w') \<Longrightarrow> \<exists>cs. calls w' = calls w @ cs \<and> set cs \<subseteq> set rs"
proof (induction rs arbitrary: w)
  case Nil
  then show ?case by simp
next
  case (Cons r rs)
  obtain res1 w1 where u: "update fmt r w = (res1, w1)" by (cases "update fmt r w")
  note c1 = update_calls[OF u]
  show ?case
  proof (cases res1)
    case (Some e)
    with Cons.prems u have "w' = w1" by simp
    with c1 show ?thesis by auto
  next
    case None
    with Cons.prems u have "run_updates fmt rs w1 = (res, w')" by simp
    from Cons.IH[OF this] obtain cs where "calls w' = calls w1 @ cs" "set cs \<subseteq> set rs"
      by blast
    with c1 show ?thesis by auto
  qed
qed

lemma run_updates_typed_preserved:
  assumes "run_updates fmt rs w = (res, w')"
  shows "typed_observer w' = typed_observer w"
proof -
  from run_updates_frame[OF assms] have "same_classes w w'" by blast
  then show ?thesis by (intro ext same_classes_typed_observer)
qed

section \<open>The claims\<close>

text \<open>
  C1. After any sequence of \<open>registerObserver\<close>/\<open>removeObserver\<close> calls on a subject
  (a \<open>WeatherData\<close> or a \<open>Button\<close>), \<open>notifyObservers()\<close> returns normally and the
  \<open>update()\<close> invocations it makes are exactly the entries of the registry at that moment,
  one invocation for each entry, in the order of the entries and nothing else. That order
  is the order of registration: the registry is a subsequence of the observers registered,
  and when no call of the sequence raised it is what appending and removing the first
  match give. The observers are those of the program, each constructed on a subject of the
  class it pulls from.
\<close>

theorem notifyObservers_registry_order:
  assumes "observers_of w self = Some obs0"
    and "list_all (typed_observer w) (obs0 @ registered cs)"
    and "run_calls self cs w = (res, w1)"
  shows "\<exists>obs1 w2.
           observers_of w1 self = Some obs1 \<and>
           subseq obs1 (obs0 @ registered cs) \<and>
           (res = None \<longrightarrow> obs1 = registry_after cs obs0) \<and>
           notifyObservers fmt self w1 = (None, w2) \<and>
           calls w2 = calls w1 @ obs1 \<and>
           observers_of w2 self = Some obs1"
proof -
  from run_calls_registry[OF assms(1,3)] obtain obs1 where
    obs1: "observers_of w1 self = Some obs1" and sc: "same_classes w w1" and
    ss: "subseq obs1 (obs0 @ registered cs)" and
    ra: "res = None \<longrightarrow> obs1 = registry_after cs obs0"
    by blast
  have "typed_observer w1 = typed_observer w"
    by (rule ext) (rule same_classes_typed_observer[OF sc])
  moreover from ss have "set obs1 \<subseteq> set (obs0 @ registered cs)" by (rule subseq_set)
  ultimately have "list_all (typed_observer w1) obs1"
    using assms(2) by (auto simp: list_all_iff)
  from run_updates_typed[OF this, of fmt] obtain w2 where
    ru: "run_updates fmt obs1 w1 = (None, w2)" and cl: "calls w2 = calls w1 @ obs1"
    by blast
  from ru have n: "notifyObservers fmt self w1 = (None, w2)"
    by (simp add: notifyObservers_run_updates[OF obs1])
  from run_updates_observers_of[OF ru, of self] obs1 have "observers_of w2 self = Some obs1"
    by simp
  with obs1 ss ra n cl show ?thesis by blast
qed

theorem notifyObservers_registry_order_witness:
  "observers_of demo 0 = Some [] \<and>
   list_all (typed_observer demo) ([] @ registered [Register 1, Register 2, Register 3, Remove 2, Register 2]) \<and>
   (\<exists>w1 w2. run_calls 0 [Register 1, Register 2, Register 3, Remove 2, Register 2] demo = (None, w1) \<and>
      observers_of w1 0 = Some [1, 3, 2] \<and>
      notifyObservers (\<lambda>v. []) 0 w1 = (None, w2) \<and>
      calls w2 = [1, 3, 2])"
proof -
  let ?cs = "[Register 1, Register 2, Register 3, Remove 2, Register 2]"
  have h1: "observers_of demo 0 = Some []"
    by (simp add: demo_def observers_of_def deref_def)
  have h2: "list_all (typed_observer demo) ([] @ registered ?cs)"
    by (simp add: demo_def typed_observer_def is_WeatherData_def deref_def)
  obtain w1 where h3: "run_calls 0 ?cs demo = (None, w1)" and c1: "calls w1 = []"
    by (simp add: demo_def registerObserver_def removeObserver_def deref_def store_def)
  from notifyObservers_registry_order[OF h1 h2 h3, of "\<lambda>v. []"] obtain obs1 w2 where
    "observers_of w1 0 = Some obs1" "obs1 = registry_after ?cs []"
    "notifyObservers (\<lambda>v. []) 0 w1 = (None, w2)" "calls w2 = calls w1 @ obs1"
    by blast
  with h1 h2 h3 c1 show ?thesis by simp
qed

text \<open>
  C2, at a weather station with a pollen display registered: \<open>set_measurements(50.0, 120,
  120, 123)\<close> assigns the temperature, the pressure and the humidity from its arguments and
  notifies last, but the pollen it stores, and the pollen that the display pulls and prints,
  is \<open>15\<close> and not the argument \<open>123\<close>.
\<close>

theorem set_measurements_drops_pollen_argument:
  "\<exists>w'. set_measurements fmt 0 (PyFloat 50) (PyInt 120) (PyInt 120) (PyInt 123)
           (snd (registerObserver 0 4 demo)) = (None, w') \<and>
        get_temperature w' 0 = Inr (PyFloat 50) \<and>
        get_pressure w' 0 = Inr (PyInt 120) \<and>
        get_humidity w' 0 = Inr (PyInt 120) \<and>
        get_pollen w' 0 = Inr (PyInt 15) \<and>
        get_pollen w' 0 \<noteq> Inr (PyInt 123) \<and>
        deref w' 4 = Some (PollenDisplay (PyInt 15) 0) \<and>
        calls w' = [4] \<and>
        stdout w' = [''The current pollen is: '' @ fmt (PyInt 15)]"
proof -
  let ?w = "store 0 (WeatherData [4] (PyFloat 0) (PyFloat 0) (PyFloat 0) (PyFloat 0)) demo"
  have w: "snd (registerObserver 0 4 demo) = ?w"
    by (simp add: registerObserver_def demo_def deref_def)
  have d: "deref ?w 0 = Some (WeatherData [4] (PyFloat 0) (PyFloat 0) (PyFloat 0) (PyFloat 0))"
    by (simp add: demo_def deref_def)
  show ?thesis
    unfolding w set_measurements_WeatherData(1)[OF d]
    by (simp add: update_def display_def deref_def getter_defs demo_def)
qed

text \<open>
  C3. After \<open>set_measurements(t, p, h, q)\<close> on a \<open>WeatherData\<close> the pollen is \<open>15\<close>,
  whether the notification returned or raised, and the argument \<open>q\<close> has no effect at
  all: with any other pollen argument the call has the same outcome and leaves the same
  world (the same fields, the same output, the same \<open>update()\<close> invocations).
\<close>

theorem set_measurements_pollen_15:
  assumes "deref w self = Some (WeatherData obs t0 p0 h0 q0)"
    and "set_measurements fmt self t p h q w = (res, w')"
  shows "get_pollen w' self = Inr (PyInt 15) \<and>
         pollen (the (deref w' self)) = PyInt 15 \<and>
         (\<forall>q'. set_measurements fmt self t p h q' w = (res, w'))"
proof -
  from set_measurements_subject[OF assms]
  have "deref w' self = Some (WeatherData obs t p h (PyInt 15))" .
  then have "get_pollen w' self = Inr (PyInt 15)" "pollen (the (deref w' self)) = PyInt 15"
    by (simp_all add: get_pollen_def)
  moreover have "set_measurements fmt self t p h q' w = (res, w')" for q'
    using assms(2) by (simp add: set_measurements_def)
  ultimately show ?thesis by blast
qed

theorem set_measurements_pollen_15_witness:
  "deref (store 0 (WeatherData [4] (PyFloat 0) (PyFloat 0) (PyFloat 0) (PyFloat 0)) demo) 0 =
     Some (WeatherData [4] (PyFloat 0) (PyFloat 0) (PyFloat 0) (PyFloat 0)) \<and>
   (\<exists>w'. set_measurements (\<lambda>v. case v of PyInt i \<Rightarrow> if i = 15 then ''15'' else ''?'' | _ \<Rightarrow> ''?'')
            0 (PyFloat 50) (PyInt 120) (PyInt 120) (PyInt 123)
            (store 0 (WeatherData [4] (PyFloat 0) (PyFloat 0) (PyFloat 0) (PyFloat 0)) demo)
          = (None, w') \<and>
        get_pollen w' 0 = Inr (PyInt 15) \<and>
        stdout w' = [''The current pollen is: 15''] \<and>
        set_measurements (\<lambda>v. case v of PyInt i \<Rightarrow> if i = 15 then ''15'' else ''?'' | _ \<Rightarrow> ''?'')
            0 (PyFloat 50) (PyInt 120) (PyInt 120) (PyInt 7)
            (store 0 (WeatherData [4] (PyFloat 0) (PyFloat 0) (PyFloat 0) (PyFloat 0)) demo)
          = (None, w'))"
proof -
  let ?w = "store 0 (WeatherData [4] (PyFloat 0) (PyFloat 0) (PyFloat 0) (PyFloat 0)) demo"
  let ?fmt = "\<lambda>v. case v of PyInt i \<Rightarrow> if i = 15 then ''15'' else ''?'' | _ \<Rightarrow> ''?''"
  have h: "deref ?w 0 = Some (WeatherData [4] (PyFloat 0) (PyFloat 0) (PyFloat 0) (PyFloat 0))"
    by (simp add: demo_def deref_def)
  have e: "set_measurements ?fmt 0 (PyFloat 50) (PyInt 120) (PyInt 120) (PyInt 123) ?w =
      run_updates ?fmt [4] (store 0 (WeatherData [4] (PyFloat 50) (PyInt 120) (PyInt 120) (PyInt 15)) ?w)"
    by (rule set_measurements_WeatherData(1)[OF h])
  obtain w' where sm: "set_measurements ?fmt 0 (PyFloat 50) (PyInt 120) (PyInt 120) (PyInt 123) ?w = (None, w')"
    and out: "stdout w' = [''The current pollen is: 15'']"
    unfolding e
    by (simp add: demo_def deref_def update_def display_def get_pollen_def)
  from set_measurements_pollen_15[OF h sm] h sm out show ?thesis by blast
qed

text \<open>
  C4. \<open>removeObserver(o)\<close> on a subject deletes the first entry of the registry equal to
  \<open>o\<close> and leaves every other entry, later duplicates of \<open>o\<close> included, in place and in
  order; when \<open>o\<close> is not in the registry it raises \<open>ValueError\<close> (the "not found" error of
  \<open>list.remove\<close>) and the world, the registry with it, is unchanged.
\<close>

theorem removeObserver_first_match:
  assumes "observers_of w self = Some obs"
  shows "(r \<in> set obs \<longrightarrow>
            (\<exists>xs ys w'. obs = xs @ r # ys \<and> r \<notin> set xs \<and>
               removeObserver self r w = (None, w') \<and>
               observers_of w' self = Some (xs @ ys))) \<and>
         (r \<notin> set obs \<longrightarrow> removeObserver self r w = (Some ValueError, w))"
proof (intro conjI impI)
  assume "r \<in> set obs"
  then obtain xs ys where split: "obs = xs @ r # ys" "r \<notin> set xs"
    by (auto dest: split_list_first)
  then have "list_remove r obs = Some (xs @ ys)" by (simp add: list_remove_first)
  from removeObserver_found[OF assms this] split
  show "\<exists>xs ys w'. obs = xs @ r # ys \<and> r \<notin> set xs \<and>
          removeObserver self r w = (None, w') \<and> observers_of w' self = Some (xs @ ys)"
    by blast
next
  assume "r \<notin> set obs"
  then have "list_remove r obs = None" by (simp add: list_remove_None)
  from removeObserver_missing[OF assms this]
  show "removeObserver self r w = (Some ValueError, w)" .
qed

theorem removeObserver_first_match_witness:
  "observers_of (store 0 (WeatherData [1, 2, 1] (PyFloat 0) (PyFloat 0) (PyFloat 0) (PyFloat 0)) demo) 0
     = Some [1, 2, 1] \<and>
   (\<exists>w'. removeObserver 0 1
            (store 0 (WeatherData [1, 2, 1] (PyFloat 0) (PyFloat 0) (PyFloat 0) (PyFloat 0)) demo)
          = (None, w') \<and>
        observers_of w' 0 = Some [2, 1]) \<and>
   removeObserver 0 4
     (store 0 (WeatherData [1, 2, 1] (PyFloat 0) (PyFloat 0) (PyFloat 0) (PyFloat 0)) demo)
   = (Some ValueError,
      store 0 (WeatherData [1, 2, 1] (PyFloat 0) (PyFloat 0) (PyFloat 0) (PyFloat 0)) demo)"
proof -
  let ?w = "store 0 (WeatherData [1, 2, 1] (PyFloat 0) (PyFloat 0) (PyFloat 0) (PyFloat 0)) demo"
  have h: "observers_of ?w 0 = Some [1, 2, 1]"
    by (simp add: demo_def observers_of_def deref_def)
  from removeObserver_first_match[OF h, of 1] obtain xs ys w' where
    s: "[1, 2, 1] = xs @ 1 # ys" "1 \<notin> set xs" and
    r: "removeObserver 0 1 ?w = (None, w')" "observers_of w' 0 = Some (xs @ ys)"
    by auto
  from s have "xs = []" "ys = [2, 1]" by (cases xs; simp)+
  with r have a: "\<exists>w'. removeObserver 0 1 ?w = (None, w') \<and> observers_of w' 0 = Some [2, 1]"
    by auto
  from removeObserver_first_match[OF h, of 4]
  have b: "removeObserver 0 4 ?w = (Some ValueError, ?w)" by simp
  from h a b show ?thesis by blast
qed

text \<open>
  C5. When the loop of \<open>notifyObservers()\<close> has updated the observers before position \<open>i\<close>
  and the \<open>update()\<close> of the observer at position \<open>i\<close> raises, the same exception leaves
  \<open>notifyObservers()\<close>; the invocations of that broadcast are those of positions \<open>0\<close> to
  \<open>i\<close>, so no observer after \<open>i\<close> is updated; and the heap and the output are those that
  the earlier updates produced: nothing is undone. (In this program the exception can only
  be the \<open>AttributeError\<close> of a getter that the subject does not have.)
\<close>

theorem notifyObservers_exception_propagates:
  assumes "observers_of w self = Some obs" and "i < length obs"
    and "run_updates fmt (take i obs) w = (None, wi)"
    and "is_observer wi (obs ! i)"
    and "update fmt (obs ! i) wi = (Some e, we)"
  shows "notifyObservers fmt self w = (Some e, we) \<and>
         calls we = calls w @ take (Suc i) obs \<and>
         heap we = heap wi \<and> stdout we = stdout wi \<and>
         e = AttributeError"
proof -
  from assms(2) have obs: "obs = take i obs @ obs ! i # drop (Suc i) obs"
    by (simp add: id_take_nth_drop)
  have "run_updates fmt (take i obs @ obs ! i # drop (Suc i) obs) w = (Some e, we)"
    by (simp add: run_updates_append assms(3,5))
  with obs have ru: "run_updates fmt obs w = (Some e, we)" by simp
  have n: "notifyObservers fmt self w = (Some e, we)"
    by (simp add: notifyObservers_run_updates[OF assms(1)] ru)
  from update_raises[OF assms(4,5)] have we: "we = called (obs ! i) wi" and e: "e = AttributeError"
    by simp_all
  from run_updates_None_calls[OF assms(3)] have "calls wi = calls w @ take i obs" .
  with we assms(2) have "calls we = calls w @ take (Suc i) obs"
    by (simp add: take_Suc_conv_app_nth)
  with n we e show ?thesis by simp
qed

theorem notifyObservers_exception_propagates_witness:
  "observers_of demo_mistyped 0 = Some [1, 3, 2] \<and> (1::nat) < length [1, 3, 2::nat] \<and>
   (\<exists>wi we.
      run_updates (\<lambda>v. ''0.0'') (take 1 [1, 3, 2]) demo_mistyped = (None, wi) \<and>
      is_observer wi ([1, 3, 2] ! 1) \<and>
      update (\<lambda>v. ''0.0'') ([1, 3, 2] ! 1) wi = (Some AttributeError, we) \<and>
      notifyObservers (\<lambda>v. ''0.0'') 0 demo_mistyped = (Some AttributeError, we) \<and>
      calls we = [1, 3] \<and>
      stdout we = [''The current pressure is: 0.0''] \<and>
      deref we 2 = Some (TemperatureDisplay (PyFloat 0) 0))"
proof -
  let ?fmt = "\<lambda>v::pyval. ''0.0''"
  have h1: "observers_of demo_mistyped 0 = Some [1, 3, 2]"
    by (simp add: demo_mistyped_def observers_of_def deref_def)
  have h2: "(1::nat) < length [1, 3, 2::nat]" by simp
  obtain wi where h3: "run_updates ?fmt (take 1 [1, 3, 2]) demo_mistyped = (None, wi)"
    and wi: "stdout wi = [''The current pressure is: 0.0'']" "heap wi = heap demo_mistyped"
    by (simp add: demo_mistyped_def update_def display_def deref_def get_pressure_def)
  have h4: "is_observer wi ([1, 3, 2] ! 1)"
    by (simp add: is_observer_def deref_def wi demo_mistyped_def)
  obtain we where h5: "update ?fmt ([1, 3, 2] ! 1) wi = (Some AttributeError, we)"
    by (simp add: update_def deref_def get_humidity_def wi demo_mistyped_def)
  from notifyObservers_exception_propagates[OF h1 h2 h3 h4 h5]
  have c: "notifyObservers ?fmt 0 demo_mistyped = (Some AttributeError, we)"
    "calls we = calls demo_mistyped @ take (Suc 1) [1, 3, 2]"
    "heap we = heap wi" "stdout we = stdout wi"
    by simp_all
  from c(2) have c2: "calls we = [1, 3]" by (simp add: demo_mistyped_def)
  from c(3) wi(2) have c3: "deref we 2 = Some (TemperatureDisplay (PyFloat 0) 0)"
    by (simp add: deref_def demo_mistyped_def)
  from h1 h2 h3 h4 h5 c(1) c2 c(4) wi(1) c3 show ?thesis by auto
qed

text \<open>
  C6. Registering the same observer twice on a subject that did not hold it succeeds both
  times (no identity or duplicate check) and leaves two entries at the end of the registry.
  In every later world with that registry, \<open>notifyObservers()\<close> invokes the \<open>update()\<close> of
  that observer exactly twice, and the world it leaves has the same registry, so the same
  holds for each notification that follows.
\<close>

theorem register_twice_updates_twice:
  assumes "observers_of w self = Some obs" and "r \<notin> set obs"
    and "registerObserver self r w = (res1, w1)"
    and "registerObserver self r w1 = (res2, w2)"
    and "observers_of w3 self = observers_of w2 self"
    and "list_all (typed_observer w3) (obs @ [r, r])"
    and "notifyObservers fmt self w3 = (res, w4)"
  shows "res1 = None \<and> res2 = None \<and> observers_of w2 self = Some (obs @ [r, r]) \<and>
         res = None \<and> calls w4 = calls w3 @ obs @ [r, r] \<and>
         count_list (obs @ [r, r]) r = 2 \<and>
         observers_of w4 self = observers_of w2 self \<and>
         list_all (typed_observer w4) (obs @ [r, r])"
proof -
  from registerObserver_subject[OF assms(1), of r] assms(3)
  have r1: "res1 = None" and o1: "observers_of w1 self = Some (obs @ [r])" by auto
  from registerObserver_subject[OF o1, of r] assms(4)
  have r2: "res2 = None" and o2: "observers_of w2 self = Some (obs @ [r, r])" by auto
  from assms(5) o2 have o3: "observers_of w3 self = Some (obs @ [r, r])" by simp
  from run_updates_typed[OF assms(6), of fmt] obtain w' where
    ru: "run_updates fmt (obs @ [r, r]) w3 = (None, w')" and
    cl: "calls w' = calls w3 @ (obs @ [r, r])" by blast
  from ru assms(7) have res: "res = None" and w4: "w4 = w'"
    by (simp_all add: notifyObservers_run_updates[OF o3])
  from run_updates_observers_of[OF ru, of self] o3 o2 w4
  have o4: "observers_of w4 self = observers_of w2 self" by simp
  from run_updates_typed_preserved[OF ru] assms(6) w4
  have t4: "list_all (typed_observer w4) (obs @ [r, r])" by simp
  from assms(2) have "count_list (obs @ [r, r]) r = 2"
    by (simp add: count_list_0_iff)
  with r1 r2 o2 res cl w4 o4 t4 show ?thesis by simp
qed

theorem register_twice_updates_twice_witness:
  "observers_of demo 0 = Some [] \<and> 2 \<notin> set ([]::ref list) \<and>
   (\<exists>w1 w2 w4.
      registerObserver 0 2 demo = (None, w1) \<and>
      registerObserver 0 2 w1 = (None, w2) \<and>
      observers_of w2 0 = Some [2, 2] \<and>
      list_all (typed_observer w2) ([] @ [2, 2]) \<and>
      notifyObservers (\<lambda>v. ''0.0'') 0 w2 = (None, w4) \<and>
      calls w4 = calls w2 @ [] @ [2, 2] \<and>
      count_list ([] @ [2, 2::ref]) 2 = 2 \<and>
      calls w4 = [2, 2])"
proof -
  let ?fmt = "\<lambda>v::pyval. ''0.0''"
  have h1: "observers_of demo 0 = Some []"
    by (simp add: demo_def observers_of_def deref_def)
  have h2: "2 \<notin> set ([]::ref list)" by simp
  obtain w1 where h3: "registerObserver 0 2 demo = (None, w1)"
    by (simp add: registerObserver_def demo_def deref_def)
  obtain w2 where h4: "registerObserver 0 2 w1 = (None, w2)"
    and w2: "heap w2 = (heap demo)[0 := WeatherData [2, 2] (PyFloat 0) (PyFloat 0) (PyFloat 0) (PyFloat 0)]"
      "calls w2 = []"
    using h3 by (auto simp: registerObserver_def demo_def deref_def)
  have h6: "list_all (typed_observer w2) ([] @ [2, 2])"
    by (simp add: typed_observer_def is_WeatherData_def deref_def w2 demo_def)
  obtain res w4 where h7: "notifyObservers ?fmt 0 w2 = (res, w4)"
    by (cases "notifyObservers ?fmt 0 w2")
  from register_twice_updates_twice[OF h1 h2 h3 h4 refl h6 h7]
  have c: "res = None" "observers_of w2 0 = Some ([] @ [2, 2])"
    "calls w4 = calls w2 @ [] @ [2, 2]" "count_list ([] @ [2, 2::ref]) 2 = 2"
    by simp_all
  from c(3) w2(2) have "calls w4 = [2, 2]" by simp
  with h1 h2 h3 h4 h6 h7 c show ?thesis by auto
qed

text \<open>
  C7. When an observer that is in the registry exactly once is removed, the removal
  succeeds and the observer is no longer in the registry. From then on, in every world in
  which it has not been registered again, whatever else has been registered, removed or
  mutated in the meantime, \<open>notifyObservers()\<close> on the subject makes no \<open>update()\<close>
  invocation on it and leaves the registry as it is; and registry calls that do not
  register it again keep it out of the registry. The removal is not retroactive: the log
  of the invocations made before it and the output printed before it are unchanged.
\<close>

theorem removed_observer_not_updated:
  assumes "observers_of w self = Some obs" and "count_list obs r = 1"
    and "removeObserver self r w = (res1, w1)"
    and "observers_of w3 self = Some obs3" and "r \<notin> set obs3"
    and "notifyObservers fmt self w3 = (res, w4)"
  shows "res1 = None \<and> observers_of w1 self = Some (remove1 r obs) \<and>
         r \<notin> set (remove1 r obs) \<and>
         calls w1 = calls w \<and> stdout w1 = stdout w \<and>
         (\<exists>cs. calls w4 = calls w3 @ cs \<and> r \<notin> set cs) \<and>
         observers_of w4 self = Some obs3 \<and>
         (\<forall>cs res2 w2. r \<notin> set (registered cs) \<and> run_calls self cs w1 = (res2, w2) \<longrightarrow>
            (\<exists>obs2. observers_of w2 self = Some obs2 \<and> r \<notin> set obs2))"
proof -
  from assms(2) have "r \<in> set obs" by (metis count_list_0_iff zero_neq_one)
  then obtain obs' where lr: "list_remove r obs = Some obs'"
    by (cases "list_remove r obs") (simp_all add: list_remove_None)
  then have obs': "obs' = remove1 r obs" by (rule list_remove_remove1)
  from removeObserver_found[OF assms(1) lr] assms(3)
  have r1: "res1 = None" and o1: "observers_of w1 self = Some obs'"
    and c1: "calls w1 = calls w" and s1: "stdout w1 = stdout w" by auto
  from assms(2) have "count_list obs' r = 0" by (simp add: obs' count_list_remove1)
  then have notin: "r \<notin> set obs'" by (simp add: count_list_0_iff)
  from assms(6) have ru: "run_updates fmt obs3 w3 = (res, w4)"
    by (simp add: notifyObservers_run_updates[OF assms(4)])
  from run_updates_calls_subset[OF ru] assms(5)
  have cs: "\<exists>cs. calls w4 = calls w3 @ cs \<and> r \<notin> set cs" by blast
  from run_updates_observers_of[OF ru, of self] assms(4)
  have o4: "observers_of w4 self = Some obs3" by simp
  have later: "\<exists>obs2. observers_of w2 self = Some obs2 \<and> r \<notin> set obs2"
    if "r \<notin> set (registered cs)" and "run_calls self cs w1 = (res2, w2)" for cs res2 w2
  proof -
    from run_calls_registry[OF o1 that(2)] obtain obs2 where
      o2: "observers_of w2 self = Some obs2" and "subseq obs2 (obs' @ registered cs)"
      by blast
    then have "set obs2 \<subseteq> set (obs' @ registered cs)" by (intro subseq_set)
    with notin that(1) have "r \<notin> set obs2" by auto
    with o2 show ?thesis by blast
  qed
  from r1 o1 notin c1 s1 cs o4 later show ?thesis unfolding obs' by blast
qed

theorem removed_observer_not_updated_witness:
  "observers_of (store 0 (WeatherData [1, 2, 3] (PyInt 5) (PyInt 5) (PyInt 5) (PyInt 15)) demo) 0
     = Some [1, 2, 3] \<and>
   count_list [1, 2, 3::ref] 2 = 1 \<and>
   (\<exists>w1 w4 w5 w6.
      removeObserver 0 2
        (store 0 (WeatherData [1, 2, 3] (PyInt 5) (PyInt 5) (PyInt 5) (PyInt 15)) demo) = (None, w1) \<and>
      observers_of w1 0 = Some [1, 3] \<and>
      set_measurements (\<lambda>v. ''10'') 0 (PyInt 10) (PyInt 10) (PyInt 10) (PyInt 10) w1 = (None, w4) \<and>
      calls w4 = [1, 3] \<and>
      deref w4 1 = Some (PressureDisplay (PyInt 10) 0) \<and>
      deref w4 2 = Some (TemperatureDisplay (PyFloat 0) 0) \<and>
      deref w4 3 = Some (HumidityDisplay (PyInt 10) 0) \<and>
      stdout w4 = [''The current pressure is: 10'', ''The current humidity is: 10''] \<and>
      run_calls 0 [Register 4] w4 = (None, w5) \<and>
      observers_of w5 0 = Some [1, 3, 4] \<and>
      2 \<notin> set [1, 3, 4::ref] \<and>
      set_measurements (\<lambda>v. ''10'') 0 (PyInt 10) (PyInt 10) (PyInt 10) (PyInt 10) w5 = (None, w6) \<and>
      calls w6 = [1, 3, 1, 3, 4] \<and>
      2 \<notin> set (calls w6) \<and>
      deref w6 2 = Some (TemperatureDisplay (PyFloat 0) 0))"
proof -
  let ?fmt = "\<lambda>v::pyval. ''10''"
  let ?w = "store 0 (WeatherData [1, 2, 3] (PyInt 5) (PyInt 5) (PyInt 5) (PyInt 15)) demo"
  let ?w1 = "store 0 (WeatherData [1, 3] (PyInt 5) (PyInt 5) (PyInt 5) (PyInt 15)) demo"
  let ?w3 = "store 0 (WeatherData [1, 3] (PyInt 10) (PyInt 10) (PyInt 10) (PyInt 15)) ?w1"
  have h1: "observers_of ?w 0 = Some [1, 2, 3]"
    by (simp add: demo_def observers_of_def deref_def)
  have h2: "count_list [1, 2, 3::ref] 2 = 1" by simp
  have h3: "removeObserver 0 2 ?w = (None, ?w1)"
    by (simp add: removeObserver_def demo_def deref_def store_def)
  have o1: "observers_of ?w1 0 = Some [1, 3]"
    by (simp add: demo_def observers_of_def deref_def)
  have sm: "set_measurements ?fmt 0 (PyInt 10) (PyInt 10) (PyInt 10) (PyInt 10) ?w1 =
      notifyObservers ?fmt 0 ?w3"
    by (simp add: set_measurements_def demo_def deref_def)
  have o3: "observers_of ?w3 0 = Some [1, 3]"
    by (simp add: demo_def observers_of_def deref_def)
  have n3: "2 \<notin> set [1, 3::ref]" by simp
  let ?w4 = "\<lparr>heap =
        [WeatherData [1, 3] (PyInt 10) (PyInt 10) (PyInt 10) (PyInt 15),
         PressureDisplay (PyInt 10) 0, TemperatureDisplay (PyFloat 0) 0,
         HumidityDisplay (PyInt 10) 0, PollenDisplay (PyFloat 0) 0,
         Button ON [], OnEventListener 5, OffEventListener 5],
      stdout = [''The current pressure is: 10'', ''The current humidity is: 10''],
      calls = [1, 3]\<rparr>"
  have h5: "notifyObservers ?fmt 0 ?w3 = (None, ?w4)"
    unfolding notifyObservers_run_updates[OF o3]
    by (simp add: demo_def update_def display_def deref_def getter_defs
        store_def called_def print_def)
  define w4 where "w4 = ?w4"
  have w4: "heap w4 =
        [WeatherData [1, 3] (PyInt 10) (PyInt 10) (PyInt 10) (PyInt 15),
         PressureDisplay (PyInt 10) 0, TemperatureDisplay (PyFloat 0) 0,
         HumidityDisplay (PyInt 10) 0, PollenDisplay (PyFloat 0) 0,
         Button ON [], OnEventListener 5, OffEventListener 5]"
      "calls w4 = [1, 3]"
      "stdout w4 = [''The current pressure is: 10'', ''The current humidity is: 10'']"
    by (simp_all add: w4_def)
  note h5 = h5[folded w4_def]
  have d4: "deref w4 1 = Some (PressureDisplay (PyInt 10) 0)"
    "deref w4 2 = Some (TemperatureDisplay (PyFloat 0) 0)"
    "deref w4 3 = Some (HumidityDisplay (PyInt 10) 0)"
    by (simp_all add: deref_def w4)
  let ?w5 = "store 0 (WeatherData [1, 3, 4] (PyInt 10) (PyInt 10) (PyInt 10) (PyInt 15)) w4"
  have h6: "run_calls 0 [Register 4] w4 = (None, ?w5)"
    by (simp add: registerObserver_def deref_def w4)
  have o5: "observers_of ?w5 0 = Some [1, 3, 4]"
    by (simp add: observers_of_def deref_def w4)
  have n5: "2 \<notin> set [1, 3, 4::ref]" by simp
  have sm5: "set_measurements ?fmt 0 (PyInt 10) (PyInt 10) (PyInt 10) (PyInt 10) ?w5 =
      notifyObservers ?fmt 0 ?w5"
    by (simp add: set_measurements_def deref_def w4 store_def)
  obtain res w6 where h7: "notifyObservers ?fmt 0 ?w5 = (res, w6)"
    by (cases "notifyObservers ?fmt 0 ?w5")
  from h7 have ev: "res = None" "calls w6 = [1, 3, 1, 3, 4]"
    "deref w6 2 = Some (TemperatureDisplay (PyFloat 0) 0)"
    unfolding notifyObservers_run_updates[OF o5]
    by (auto simp: update_def display_def deref_def getter_defs w4)
  from removed_observer_not_updated[OF h1 h2 h3 o5 n5 h7]
  obtain cs where "calls w6 = calls ?w5 @ cs" "2 \<notin> set cs" by blast
  with w4(2) have "2 \<notin> set (calls w6)" by simp
  with h1 h2 h3 o1 sm h5 w4(2,3) d4 h6 o5 n5 sm5 h7 ev show ?thesis by auto
qed



text \<open>
  C9. On a subject, \<open>registerObserver\<close> and \<open>removeObserver\<close> (whether it removes an entry
  or raises) leave every state field as it was (each getter answers as before: the four
  measurements of a \<open>WeatherData\<close>, the state of a \<open>Button\<close>), invoke no \<open>update()\<close>, print
  nothing and change no object but the subject. Conversely \<open>set_measurements\<close>, and
  \<open>set_state\<close> on a button, leave the registry as it was, contents and order.
\<close>

theorem registry_and_state_frames:
  assumes "observers_of w self = Some obs"
  shows "same_fields w (snd (registerObserver self r w)) self \<and>
         calls (snd (registerObserver self r w)) = calls w \<and>
         stdout (snd (registerObserver self r w)) = stdout w \<and>
         (\<forall>s. s \<noteq> self \<longrightarrow> deref (snd (registerObserver self r w)) s = deref w s) \<and>
         same_fields w (snd (removeObserver self r w)) self \<and>
         calls (snd (removeObserver self r w)) = calls w \<and>
         stdout (snd (removeObserver self r w)) = stdout w \<and>
         (\<forall>s. s \<noteq> self \<longrightarrow> deref (snd (removeObserver self r w)) s = deref w s) \<and>
         observers_of (snd (set_measurements fmt self t p h q w)) self = Some obs \<and>
         observers_of (snd (set_state fmt self st w)) self = Some obs"
proof -
  have "registerObserver self r w = (fst (registerObserver self r w), snd (registerObserver self r w))"
    by simp
  note a = registerObserver_frame[OF assms this]
  have "removeObserver self r w = (fst (removeObserver self r w), snd (removeObserver self r w))"
    by simp
  note b = removeObserver_frame[OF assms this]
  have "set_measurements fmt self t p h q w =
      (fst (set_measurements fmt self t p h q w), snd (set_measurements fmt self t p h q w))"
    by simp
  note c = set_measurements_registry[OF assms this]
  have "set_state fmt self st w = (fst (set_state fmt self st w), snd (set_state fmt self st w))"
    by simp
  note d = set_state_registry[OF assms this]
  from a b c d show ?thesis by blast
qed

theorem registry_and_state_frames_witness:
  "observers_of (store 0 (WeatherData [1, 2] (PyFloat 50) (PyInt 120) (PyInt 120) (PyInt 15)) demo) 0
     = Some [1, 2] \<and>
   same_fields (store 0 (WeatherData [1, 2] (PyFloat 50) (PyInt 120) (PyInt 120) (PyInt 15)) demo)
     (snd (registerObserver 0 1
        (store 0 (WeatherData [1, 2] (PyFloat 50) (PyInt 120) (PyInt 120) (PyInt 15)) demo))) 0 \<and>
   get_temperature
     (snd (removeObserver 0 1
        (store 0 (WeatherData [1, 2] (PyFloat 50) (PyInt 120) (PyInt 120) (PyInt 15)) demo))) 0
     = Inr (PyFloat 50) \<and>
   calls (snd (removeObserver 0 1
        (store 0 (WeatherData [1, 2] (PyFloat 50) (PyInt 120) (PyInt 120) (PyInt 15)) demo))) = [] \<and>
   deref (snd (removeObserver 0 1
        (store 0 (WeatherData [1, 2] (PyFloat 50) (PyInt 120) (PyInt 120) (PyInt 15)) demo))) 1
     = Some (PressureDisplay (PyFloat 0) 0) \<and>
   observers_of (snd (set_measurements (\<lambda>v. []) 0 (PyFloat 60) (PyInt 105) (PyInt 100) (PyInt 123)
        (store 0 (WeatherData [1, 2] (PyFloat 50) (PyInt 120) (PyInt 120) (PyInt 15)) demo))) 0
     = Some [1, 2]"
proof -
  let ?w = "store 0 (WeatherData [1, 2] (PyFloat 50) (PyInt 120) (PyInt 120) (PyInt 15)) demo"
  have h: "observers_of ?w 0 = Some [1, 2]"
    by (simp add: demo_def observers_of_def deref_def)
  note t = registry_and_state_frames[OF h, where r = 1 and fmt = "\<lambda>v. []" and t = "PyFloat 60"
      and p = "PyInt 105" and h = "PyInt 100" and q = "PyInt 123"]
  from t have a: "same_fields ?w (snd (registerObserver 0 1 ?w)) 0" by blast
  from t have b: "same_fields ?w (snd (removeObserver 0 1 ?w)) 0" by blast
  have "get_temperature ?w 0 = Inr (PyFloat 50)"
    by (simp add: demo_def get_temperature_def deref_def)
  with b have b': "get_temperature (snd (removeObserver 0 1 ?w)) 0 = Inr (PyFloat 50)"
    by (simp add: same_fields_def)
  from t have "calls (snd (removeObserver 0 1 ?w)) = calls ?w" by blast
  then have c: "calls (snd (removeObserver 0 1 ?w)) = []" by (simp add: demo_def)
  from t have "\<forall>s. s \<noteq> 0 \<longrightarrow> deref (snd (removeObserver 0 1 ?w)) s = deref ?w s" by blast
  then have "deref (snd (removeObserver 0 1 ?w)) 1 = deref ?w 1" by simp
  then have d: "deref (snd (removeObserver 0 1 ?w)) 1 = Some (PressureDisplay (PyFloat 0) 0)"
    by (simp add: demo_def deref_def)
  from t have e: "observers_of (snd (set_measurements (\<lambda>v. []) 0 (PyFloat 60) (PyInt 105)
      (PyInt 100) (PyInt 123) ?w)) 0 = Some [1, 2]" by blast
  from h a b' c d e show ?thesis by blast
qed

text \<open>
  C10. A freshly constructed \<open>WeatherData\<close> is a new object with an empty registry and
  \<open>temperature = pressure = humidity = pollen = 0.0\<close>: each getter returns \<open>0.0\<close>, and a
  \<open>notifyObservers()\<close> before any registration returns with the world as it was (no
  \<open>update()\<close>, no output). A freshly constructed \<open>Button\<close> has an empty registry and the
  state \<open>ButtonState.ON\<close>.
\<close>

theorem fresh_subjects:
  "(case WeatherData_init w of (r, w') \<Rightarrow>
      deref w r = None \<and>
      deref w' r = Some (WeatherData [] (PyFloat 0) (PyFloat 0) (PyFloat 0) (PyFloat 0)) \<and>
      observers_of w' r = Some [] \<and>
      get_temperature w' r = Inr (PyFloat 0) \<and> get_pressure w' r = Inr (PyFloat 0) \<and>
      get_humidity w' r = Inr (PyFloat 0) \<and> get_pollen w' r = Inr (PyFloat 0) \<and>
      notifyObservers fmt r w' = (None, w')) \<and>
   (case Button_init w of (r, w') \<Rightarrow>
      deref w r = None \<and>
      deref w' r = Some (Button ON []) \<and>
      observers_of w' r = Some [] \<and>
      get_state w' r = Inr ON \<and>
      notifyObservers fmt r w' = (None, w'))"
  by (simp add: WeatherData_init_def Button_init_def alloc_def deref_def observers_of_def
      getter_defs notifyObservers_def notify_loop.simps)

end
